theory Spec2Isabelle
  imports Main
begin

section \<open>JavaScript values handled by dev-server.js\<close>

text \<open>
  The three handlers of \<^verbatim>\<open>src/dev-server.js\<close> receive JSON documents (the request
  body parsed by \<^verbatim>\<open>express.json()\<close>, the provider's answer parsed by axios) and
  read properties of them without checking their type. The model therefore keeps the
  dynamic typing: a document is a \<open>jsval\<close>.

  A number is represented by the text JavaScript prints for it. The server never
  calculates with a number it received: it prints it into a template literal, tests its
  truthiness, or passes it on. Printing is injective on numbers (apart from the two
  zeros, both printed \<^verbatim>\<open>0\<close>), so nothing the server can observe is lost.
  An object is the list of its own properties in order; the first entry of a name is
  the property.
\<close>

datatype jsval =
    JUndefined
  | JNull
  | JBool bool
  | JNum string
  | JStr string
  | JArr "jsval list"
  | JObj "(string \<times> jsval) list"

text \<open>What a handler's \<^verbatim>\<open>try\<close> block can throw: a \<^verbatim>\<open>TypeError\<close> of the
  language, or the rejection of an axios call (network failure or a non-2xx answer).\<close>

datatype js_error = TypeError | AxiosError

text \<open>Truthiness, as tested by \<^verbatim>\<open>if (v)\<close>, \<^verbatim>\<open>v && w\<close> and \<^verbatim>\<open>v || w\<close>.\<close>

fun truthy :: "jsval \<Rightarrow> bool" where
  "truthy JUndefined = False"
| "truthy JNull = False"
| "truthy (JBool b) = b"
| "truthy (JNum s) = (s \<noteq> ''0'' \<and> s \<noteq> ''NaN'')"
| "truthy (JStr s) = (s \<noteq> [])"
| "truthy (JArr xs) = True"
| "truthy (JObj fs) = True"

definition js_or :: "jsval \<Rightarrow> jsval \<Rightarrow> jsval" where
  "js_or v w = (if truthy v then v else w)"

text \<open>
  Property read \<^verbatim>\<open>v.name\<close>. Reading a property of \<^verbatim>\<open>undefined\<close> or
  \<^verbatim>\<open>null\<close> throws. The server reads only the names \<^verbatim>\<open>status\<close>,
  \<^verbatim>\<open>external_id\<close>, \<^verbatim>\<open>invoice_url\<close>, \<^verbatim>\<open>id\<close>, \<^verbatim>\<open>booking_id\<close>,
  \<^verbatim>\<open>amount\<close>, \<^verbatim>\<open>description\<close>, \<^verbatim>\<open>remarks\<close> and \<^verbatim>\<open>customer_email\<close>;
  no prototype defines any of them, so a value that is not an object, or an object
  without the property, yields \<^verbatim>\<open>undefined\<close>.
\<close>

fun js_get :: "jsval \<Rightarrow> string \<Rightarrow> js_error + jsval" where
  "js_get JUndefined name = Inl TypeError"
| "js_get JNull name = Inl TypeError"
| "js_get (JObj fs) name = Inr (case map_of fs name of Some v \<Rightarrow> v | None \<Rightarrow> JUndefined)"
| "js_get v name = Inr JUndefined"

text \<open>
  String conversion, as performed by a template literal \<^verbatim>\<open>`${v}`\<close>. An array prints
  its elements separated by commas, \<^verbatim>\<open>undefined\<close> and \<^verbatim>\<open>null\<close> elements as
  nothing. An object parsed from JSON prints as \<^verbatim>\<open>[object Object]\<close>, unless it
  carries an own property \<^verbatim>\<open>toString\<close>: that property cannot be a function, the
  inherited \<^verbatim>\<open>valueOf\<close> returns the object itself, and the conversion throws.
\<close>

fun js_ToString :: "jsval \<Rightarrow> js_error + string"
  and js_join :: "jsval list \<Rightarrow> js_error + string" where
  "js_ToString JUndefined = Inr ''undefined''"
| "js_ToString JNull = Inr ''null''"
| "js_ToString (JBool b) = Inr (if b then ''true'' else ''false'')"
| "js_ToString (JNum s) = Inr s"
| "js_ToString (JStr s) = Inr s"
| "js_ToString (JArr xs) = js_join xs"
| "js_ToString (JObj fs) =
     (if ''toString'' \<in> set (map fst fs) then Inl TypeError else Inr ''[object Object]'')"
| "js_join [] = Inr []"
| "js_join [x] =
     (if x = JUndefined \<or> x = JNull then Inr [] else js_ToString x)"
| "js_join (x # y # ys) =
     (case (if x = JUndefined \<or> x = JNull then Inr [] else js_ToString x) of
        Inl e \<Rightarrow> Inl e
      | Inr s \<Rightarrow> (case js_join (y # ys) of Inl e \<Rightarrow> Inl e | Inr t \<Rightarrow> Inr (s @ '','' @ t)))"

text \<open>\<^verbatim>\<open>String.prototype.startsWith\<close> and \<^verbatim>\<open>String.prototype.split\<close> with a
  one-character separator, on strings.\<close>

definition startsWith :: "string \<Rightarrow> string \<Rightarrow> bool" where
  "startsWith s p = (take (length p) s = p)"

fun split :: "char \<Rightarrow> string \<Rightarrow> string list" where
  "split sep [] = [[]]"
| "split sep (c # cs) =
     (if c = sep then [] # split sep cs
      else (case split sep cs of [] \<Rightarrow> [[c]] | p # ps \<Rightarrow> (c # p) # ps))"

text \<open>
  The method calls \<^verbatim>\<open>v.startsWith(p)\<close> and \<^verbatim>\<open>v.split(sep)\<close> on a value of
  unknown type. Only a string has these methods. On any other value the property is
  \<^verbatim>\<open>undefined\<close> (or, on an object with such an own property, a JSON value) and
  calling it throws.
\<close>

fun js_startsWith :: "jsval \<Rightarrow> string \<Rightarrow> js_error + bool" where
  "js_startsWith (JStr s) p = Inr (startsWith s p)"
| "js_startsWith v p = Inl TypeError"

fun js_split :: "jsval \<Rightarrow> char \<Rightarrow> js_error + string list" where
  "js_split (JStr s) sep = Inr (split sep s)"
| "js_split v sep = Inl TypeError"

text \<open>Array read \<^verbatim>\<open>parts[i]\<close>: \<^verbatim>\<open>undefined\<close> beyond the end.\<close>

definition js_index :: "string list \<Rightarrow> nat \<Rightarrow> jsval" where
  "js_index parts i = (if i < length parts then JStr (parts ! i) else JUndefined)"

section \<open>The bookings table and the Supabase update\<close>

text \<open>
  The server owns no schema: it updates two columns of the table \<^verbatim>\<open>bookings\<close>,
  selected by the primary key \<^verbatim>\<open>id\<close>. A row carries the key, the two columns, and
  everything else the table stores about a booking (\<open>columns\<close>).
\<close>

record booking =
  pk :: string
  payment_status :: string
  status :: string
  columns :: "(string \<times> jsval) list"

type_synonym db_error = string

text \<open>The assignment \<^verbatim>\<open>.update({ payment_status: 'Paid', status: 'Confirmed' })\<close>.\<close>

definition set_paid_confirmed :: "booking \<Rightarrow> booking" where
  "set_paid_confirmed r = r\<lparr>payment_status := ''Paid'', status := ''Confirmed''\<rparr>"

text \<open>
  The filter \<^verbatim>\<open>.eq('id', booking_id)\<close>. The client sends the value as text in the
  query (\<^verbatim>\<open>id=eq.<value>\<close>), so a row matches when its key is the printed value.
\<close>

definition eq_id :: "jsval \<Rightarrow> booking \<Rightarrow> bool" where
  "eq_id v r = (js_ToString v = Inr (pk r))"

text \<open>The table after the statement has run: every matching row is assigned, every
  other row is kept. A key that matches no row changes nothing and is no error.\<close>

definition update_rows :: "jsval \<Rightarrow> booking list \<Rightarrow> booking list" where
  "update_rows v tbl = map (\<lambda>r. if eq_id v r then set_paid_confirmed r else r) tbl"

text \<open>
  The call \<^verbatim>\<open>await supabase.from('bookings').update(...).eq('id', v)\<close>. The client
  does not throw: it resolves to \<^verbatim>\<open>{ data, error }\<close>. Whether the database
  answers with an error is decided outside the server, so it is an input of the model
  (\<open>fault\<close>); a statement that fails changes no row. The result is the pair of that
  answer (\<open>Inl\<close> the error, \<open>Inr\<close> the rows the statement assigned, which
  \<^verbatim>\<open>.select()\<close> returns) and the table afterwards.
\<close>

definition supabase_update ::
  "db_error option \<Rightarrow> jsval \<Rightarrow> booking list \<Rightarrow> (db_error + booking list) \<times> booking list" where
  "supabase_update fault v tbl =
     (case fault of
        Some err \<Rightarrow> (Inl err, tbl)
      | None \<Rightarrow> (Inr (filter (eq_id v) (update_rows v tbl)), update_rows v tbl))"

section \<open>Responses, console output and the payment provider\<close>

datatype body = Json jsval | Text string

text \<open>\<^verbatim>\<open>res.json(v)\<close> is \<open>Reply 200 (Json v)\<close>, \<^verbatim>\<open>res.status(c).json(v)\<close> is
  \<open>Reply c (Json v)\<close>, \<^verbatim>\<open>res.status(c).send(t)\<close> is \<open>Reply c (Text t)\<close>, and
  \<^verbatim>\<open>res.sendStatus(c)\<close> sends the status with its standard reason phrase (the
  server sends only 200 and 500 this way).\<close>

datatype reply = Reply (code: nat) (content: body)

definition sendStatus :: "nat \<Rightarrow> reply" where
  "sendStatus c =
     Reply c (Text (if c = 200 then ''OK''
                    else if c = 500 then ''Internal Server Error'' else []))"

text \<open>
  One constructor for each \<^verbatim>\<open>console\<close> call of the source, with the values it is
  given (a template literal is given as its printed parts, \<^verbatim>\<open>JSON.stringify(v)\<close>
  as \<open>v\<close>).
\<close>

datatype log_entry =
    Log_creating_invoice jsval jsval
  | Err_creating_invoice js_error
  | Log_verifying string
  | Err_supabase_update db_error
  | Err_verifying js_error
  | Log_received_webhook string string
  | Log_extracted jsval
  | Log_payment_successful string
  | Err_updating_booking db_error
  | Log_booking_updated "booking list"
  | Warn_no_booking_id jsval
  | Err_webhook js_error

text \<open>The answer of an axios call: rejected, or fulfilled with the parsed body
  (\<^verbatim>\<open>response.data\<close>).\<close>

datatype provider_result = Rejected | Fulfilled jsval

text \<open>What a handler leaves behind: the response, the table and the console lines.\<close>

record outcome =
  reply :: reply
  bookings :: "booking list"
  console :: "log_entry list"

section \<open>Correlation: the booking id inside an external identifier\<close>

text \<open>
  Both handlers carry their own copy of the extraction. In
  \<^verbatim>\<open>GET /verify-payment/:invoice_id\<close>:
  \<^verbatim>\<open>
    let booking_id = null;
    if (invoice.external_id && invoice.external_id.startsWith('booking_')) {
       booking_id = invoice.external_id.split('_')[1];
    }
  \<close>
  The result is \<open>Inl\<close> when the block throws.
\<close>

definition verify_booking_id :: "jsval \<Rightarrow> js_error + jsval" where
  "verify_booking_id external_id =
     (if truthy external_id then
        (case js_startsWith external_id ''booking_'' of
           Inl e \<Rightarrow> Inl e
         | Inr prefixed \<Rightarrow>
             if prefixed then
               (case js_split external_id (CHR ''_'') of
                  Inl e \<Rightarrow> Inl e
                | Inr parts \<Rightarrow> Inr (js_index parts 1))
             else Inr JNull)
      else Inr JNull)"

text \<open>
  In \<^verbatim>\<open>POST /webhook\<close>:
  \<^verbatim>\<open>
    let booking_id = null;
    if (event.external_id && event.external_id.startsWith('booking_')) {
        const parts = event.external_id.split('_');
        if (parts.length >= 2) {
            booking_id = parts[1];
        }
    }
  \<close>
\<close>

definition webhook_booking_id :: "jsval \<Rightarrow> js_error + jsval" where
  "webhook_booking_id external_id =
     (if truthy external_id then
        (case js_startsWith external_id ''booking_'' of
           Inl e \<Rightarrow> Inl e
         | Inr prefixed \<Rightarrow>
             if prefixed then
               (case js_split external_id (CHR ''_'') of
                  Inl e \<Rightarrow> Inl e
                | Inr parts \<Rightarrow>
                    if length parts \<ge> 2 then Inr (js_index parts 1) else Inr JNull)
             else Inr JNull)
      else Inr JNull)"

section \<open>The handlers\<close>

text \<open>
  Every handler is one \<^verbatim>\<open>try\<close> block with one \<^verbatim>\<open>catch\<close>. A step of the block
  either throws or yields a value for the rest of the block. \<open>attempt trail step rest\<close>
  runs \<open>step\<close>: if it throws, the block ends with the error and with \<open>trail\<close>, what
  the handler has done so far (the console lines it printed and, where it matters, the
  requests it sent); otherwise \<open>rest\<close> goes on with the value.
\<close>

definition attempt :: "'s \<Rightarrow> js_error + 'a \<Rightarrow> ('a \<Rightarrow> (js_error \<times> 's) + 'b) \<Rightarrow> (js_error \<times> 's) + 'b" where
  "attempt trail step rest = (case step of Inl e \<Rightarrow> Inl (e, trail) | Inr v \<Rightarrow> rest v)"

subsection \<open>\<^verbatim>\<open>POST /webhook\<close>\<close>

text \<open>
  The body of the \<^verbatim>\<open>try\<close> block. Every throw comes before the database call, so
  when the block throws the table is the one the handler started with.
\<close>

definition webhook_try ::
  "db_error option \<Rightarrow> jsval \<Rightarrow> booking list \<Rightarrow> (js_error \<times> log_entry list) + outcome" where
  "webhook_try fault event tbl =
     attempt [] (js_get event ''status'') (\<lambda>st.
     attempt [] (js_ToString st) (\<lambda>st_text.
     attempt [] (js_get event ''external_id'') (\<lambda>external_id.
     attempt [] (js_ToString external_id) (\<lambda>ext_text.
     let log1 = [Log_received_webhook st_text ext_text] in
     if st = JStr ''PAID'' then
       attempt log1 (webhook_booking_id external_id) (\<lambda>booking_id.
       let log2 = log1 @ [Log_extracted booking_id] in
       if truthy booking_id then
         attempt log2 (js_ToString booking_id) (\<lambda>id_text.
         let log3 = log2 @ [Log_payment_successful id_text] in
         (case supabase_update fault booking_id tbl of
            (Inl err, tbl') \<Rightarrow>
              Inr \<lparr>reply = Reply 500 (Text ''Database update failed''),
                   bookings = tbl',
                   console = log3 @ [Err_updating_booking err]\<rparr>
          | (Inr updatedData, tbl') \<Rightarrow>
              Inr \<lparr>reply = sendStatus 200,
                   bookings = tbl',
                   console = log3 @ [Log_booking_updated updatedData]\<rparr>))
       else
         Inr \<lparr>reply = sendStatus 200,
              bookings = tbl,
              console = log2 @ [Warn_no_booking_id event]\<rparr>)
     else
       Inr \<lparr>reply = sendStatus 200, bookings = tbl, console = log1\<rparr>))))"

definition webhook :: "db_error option \<Rightarrow> jsval \<Rightarrow> booking list \<Rightarrow> outcome" where
  "webhook fault event tbl =
     (case webhook_try fault event tbl of
        Inr out \<Rightarrow> out
      | Inl (e, printed) \<Rightarrow>
          \<lparr>reply = sendStatus 500, bookings = tbl, console = printed @ [Err_webhook e]\<rparr>)"

subsection \<open>\<^verbatim>\<open>GET /verify-payment/:invoice_id\<close>\<close>

text \<open>
  \<open>answer\<close> is what the provider returns for
  \<^verbatim>\<open>axios.get(`${XENDIT_API_URL}/invoices/${invoice_id}`)\<close>; the route parameter is
  a string. When the update fails the handler prints the error and goes on to
  \<^verbatim>\<open>return res.json({ status: 'PAID', booking_id })\<close>.
\<close>

definition axios_result :: "provider_result \<Rightarrow> js_error + jsval" where
  "axios_result answer = (case answer of Rejected \<Rightarrow> Inl AxiosError | Fulfilled data \<Rightarrow> Inr data)"

definition verify_payment_try ::
  "provider_result \<Rightarrow> db_error option \<Rightarrow> string \<Rightarrow> booking list
     \<Rightarrow> (js_error \<times> log_entry list) + outcome" where
  "verify_payment_try answer fault invoice_id tbl =
     (let log1 = [Log_verifying invoice_id] in
      attempt log1 (axios_result answer) (\<lambda>invoice.
      attempt log1 (js_get invoice ''status'') (\<lambda>st.
      let passthrough =
            \<lparr>reply = Reply 200 (Json (JObj [(''status'', st)])),
             bookings = tbl, console = log1\<rparr> in
      if st = JStr ''PAID'' then
        attempt log1 (js_get invoice ''external_id'') (\<lambda>external_id.
        attempt log1 (verify_booking_id external_id) (\<lambda>booking_id.
        if truthy booking_id then
          (case supabase_update fault booking_id tbl of
             (Inl err, tbl') \<Rightarrow>
               Inr \<lparr>reply = Reply 200 (Json (JObj [(''status'', JStr ''PAID''),
                                                    (''booking_id'', booking_id)])),
                    bookings = tbl',
                    console = log1 @ [Err_supabase_update err]\<rparr>
           | (Inr rows, tbl') \<Rightarrow>
               Inr \<lparr>reply = Reply 200 (Json (JObj [(''status'', JStr ''PAID''),
                                                    (''booking_id'', booking_id)])),
                    bookings = tbl',
                    console = log1\<rparr>)
        else Inr passthrough))
      else Inr passthrough)))"

definition verify_payment ::
  "provider_result \<Rightarrow> db_error option \<Rightarrow> string \<Rightarrow> booking list \<Rightarrow> outcome" where
  "verify_payment answer fault invoice_id tbl =
     (case verify_payment_try answer fault invoice_id tbl of
        Inr out \<Rightarrow> out
      | Inl (e, printed) \<Rightarrow>
          \<lparr>reply = Reply 500 (Json (JObj [(''error'', JStr ''Verification failed'')])),
           bookings = tbl, console = printed @ [Err_verifying e]\<rparr>)"

subsection \<open>\<^verbatim>\<open>POST /create-checkout-session\<close>\<close>

text \<open>
  \<^verbatim>\<open>Date.now()\<close> is a number of milliseconds since 1970, a natural number below
  \<open>10^16\<close> on any clock set after that year; JavaScript prints such a number in
  decimal, without sign or exponent.
\<close>

definition digit :: "nat \<Rightarrow> char" where
  "digit d = ''0123456789'' ! (d mod 10)"

function dec :: "nat \<Rightarrow> string" where
  "dec n = (if n < 10 then [digit n] else dec (n div 10) @ [digit (n mod 10)])"
  by pat_completeness auto
termination
  by (relation "measure id") auto

declare dec.simps [simp del]

definition frontendUrl :: "string option \<Rightarrow> string" where
  "frontendUrl frontend =
     (case frontend of
        Some url \<Rightarrow> if url \<noteq> [] then url else ''http://localhost:5173''
      | None \<Rightarrow> ''http://localhost:5173'')"

text \<open>
  The object posted to \<^verbatim>\<open>/invoices\<close> (lines 42 to 66), from the five properties
  taken out of \<^verbatim>\<open>req.body\<close>. Printing \<^verbatim>\<open>booking_id\<close> into the template literal
  of \<^verbatim>\<open>external_id\<close> can throw. \<open>frontend\<close> is the environment variable
  \<^verbatim>\<open>FRONTEND_URL\<close>, \<open>now\<close> the clock.
\<close>

definition invoice_payload ::
  "string option \<Rightarrow> nat \<Rightarrow> jsval \<Rightarrow> jsval \<Rightarrow> jsval \<Rightarrow> jsval \<Rightarrow> jsval \<Rightarrow> js_error + jsval" where
  "invoice_payload frontend now booking_id amount description remarks customer_email =
     (case js_ToString booking_id of
        Inl e \<Rightarrow> Inl e
      | Inr id_text \<Rightarrow>
          Inr (JObj
            [(''external_id'', JStr (''booking_'' @ id_text @ ''_'' @ dec now)),
             (''amount'', amount),
             (''description'', js_or description (JStr ''Event Booking'')),
             (''invoice_duration'', JNum ''86400''),
             (''currency'', JStr ''PHP''),
             (''customer'', JObj [(''email'', customer_email)]),
             (''success_redirect_url'',
                JStr (frontendUrl frontend @ ''/payment-status?status=success'')),
             (''failure_redirect_url'',
                JStr (frontendUrl frontend @ ''/payment-status?status=failed'')),
             (''items'', JArr [JObj [(''name'', js_or description (JStr ''Event Booking'')),
                                    (''quantity'', JNum ''1''),
                                    (''price'', amount),
                                    (''category'', JStr ''Event'')]]),
             (''fees'', JArr []),
             (''metadata'', JObj [(''booking_id'', booking_id), (''remarks'', remarks)])]))"

text \<open>
  The handler. \<open>post\<close> is the provider: what \<^verbatim>\<open>axios.post\<close> returns for the
  object it is sent. The destructuring of \<^verbatim>\<open>req.body\<close> throws when the body is
  \<^verbatim>\<open>undefined\<close> or \<^verbatim>\<open>null\<close>. The trail of the block is the console lines
  and the objects sent to the provider; the outcome records the latter as \<open>posted\<close>.
  The handler makes no database call, so the table is returned as it was.
\<close>

record checkout_outcome = outcome +
  posted :: "jsval list"

definition create_checkout_session_try ::
  "string option \<Rightarrow> nat \<Rightarrow> (jsval \<Rightarrow> provider_result) \<Rightarrow> jsval \<Rightarrow> booking list
     \<Rightarrow> (js_error \<times> log_entry list \<times> jsval list) + checkout_outcome" where
  "create_checkout_session_try frontend now post req_body tbl =
     attempt ([], []) (js_get req_body ''booking_id'') (\<lambda>booking_id.
     attempt ([], []) (js_get req_body ''amount'') (\<lambda>amount.
     attempt ([], []) (js_get req_body ''description'') (\<lambda>description.
     attempt ([], []) (js_get req_body ''remarks'') (\<lambda>remarks.
     attempt ([], []) (js_get req_body ''customer_email'') (\<lambda>customer_email.
     let log1 = [Log_creating_invoice booking_id amount] in
     attempt (log1, [])
       (invoice_payload frontend now booking_id amount description remarks customer_email)
       (\<lambda>payload.
     attempt (log1, [payload]) (axios_result (post payload)) (\<lambda>data.
     attempt (log1, [payload]) (js_get data ''invoice_url'') (\<lambda>invoice_url.
     attempt (log1, [payload]) (js_get data ''id'') (\<lambda>invoice_id.
     Inr \<lparr>reply = Reply 200 (Json (JObj
                 [(''data'', JObj
                    [(''attributes'', JObj
                       [(''checkout_url'', invoice_url),
                        (''invoice_id'', invoice_id)])])])),
          bookings = tbl,
          console = log1,
          posted = [payload]\<rparr>)))))))))"

definition create_checkout_session ::
  "string option \<Rightarrow> nat \<Rightarrow> (jsval \<Rightarrow> provider_result) \<Rightarrow> jsval \<Rightarrow> booking list
     \<Rightarrow> checkout_outcome" where
  "create_checkout_session frontend now post req_body tbl =
     (case create_checkout_session_try frontend now post req_body tbl of
        Inr out \<Rightarrow> out
      | Inl (e, printed, sent) \<Rightarrow>
          \<lparr>reply = Reply 500 (Json (JObj [(''error'', JStr ''Failed to create invoice'')])),
           bookings = tbl,
           console = printed @ [Err_creating_invoice e],
           posted = sent\<rparr>)"

section \<open>Identifiers the specification singles out\<close>

text \<open>
  A malformed or missing external identifier: every value that is not a string with the
  prefix \<^verbatim>\<open>booking_\<close>. The identifier is absent (the property is missing or
  \<^verbatim>\<open>null\<close>), it is the empty string or another string that lacks the prefix, or
  it is not a string at all (a number, a boolean, an array, an object), as a request
  body can carry it.
\<close>

fun malformed :: "jsval \<Rightarrow> bool" where
  "malformed (JStr s) = (\<not> startsWith s ''booking_'')"
| "malformed v = True"

text \<open>
  The identifiers on which the guard
  \<^verbatim>\<open>external_id && external_id.startsWith('booking_')\<close> can be evaluated: the falsy
  values, where \<^verbatim>\<open>&&\<close> stops before the method call, and the strings, which have
  the method.
\<close>

fun is_string :: "jsval \<Rightarrow> bool" where
  "is_string (JStr s) = True"
| "is_string v = False"

definition falsy_or_string :: "jsval \<Rightarrow> bool" where
  "falsy_or_string x = (if truthy x then is_string x else True)"

text \<open>
  An external identifier resolves to a booking id when the extraction returns a truthy
  value, the test \<^verbatim>\<open>if (booking_id)\<close> of both handlers. It does not resolve when the
  extraction returns \<^verbatim>\<open>null\<close> or the empty string, nor when it throws.
\<close>

definition resolves :: "jsval \<Rightarrow> bool" where
  "resolves x = (case webhook_booking_id x of Inl e \<Rightarrow> False | Inr b \<Rightarrow> truthy b)"

text \<open>
  An identifier with the prefix and an empty id segment: after \<^verbatim>\<open>booking_\<close> comes
  nothing (\<^verbatim>\<open>booking_\<close>) or the delimiter at once (\<^verbatim>\<open>booking__169000\<close>).
\<close>

definition empty_id_segment :: "string \<Rightarrow> bool" where
  "empty_id_segment s =
     (startsWith s ''booking_'' \<and>
      (case drop (length ''booking_'') s of [] \<Rightarrow> True | c # cs \<Rightarrow> c = CHR ''_''))"

section \<open>Data of the specification's scenarios\<close>

text \<open>A booking that awaits payment, a table with bookings 42 and 7, and a payment
  event (a webhook body, or the invoice document of the provider) with a status and an
  external identifier.\<close>

definition awaiting :: "string \<Rightarrow> booking" where
  "awaiting k = \<lparr>pk = k, payment_status = ''Unpaid'', status = ''Pending'', columns = []\<rparr>"

definition confirmed :: "string \<Rightarrow> booking" where
  "confirmed k = \<lparr>pk = k, payment_status = ''Paid'', status = ''Confirmed'', columns = []\<rparr>"

definition two_bookings :: "booking list" where
  "two_bookings = [awaiting ''42'', awaiting ''7'']"

definition payment_event :: "string \<Rightarrow> string \<Rightarrow> jsval" where
  "payment_event st ext = JObj [(''status'', JStr st), (''external_id'', JStr ext)]"

text \<open>A paid callback as the provider sends it, with fields the server does not read;
  a checkout request of the frontend; and a provider that accepts every invoice.\<close>

definition paid_callback :: jsval where
  "paid_callback = JObj [(''id'', JStr ''inv_9''), (''amount'', JNum ''1''),
     (''external_id'', JStr ''booking_42_170000''), (''status'', JStr ''PAID''),
     (''metadata'', JObj [(''remarks'', JStr ''none'')])]"

definition checkout_request :: jsval where
  "checkout_request = JObj [(''booking_id'', JStr ''42''), (''amount'', JNum ''1000''),
     (''customer_email'', JStr ''guest@example.org'')]"

definition accepting_provider :: "jsval \<Rightarrow> provider_result" where
  "accepting_provider payload =
     Fulfilled (JObj [(''id'', JStr ''inv_1''),
                      (''status'', JStr ''PENDING''),
                      (''invoice_url'', JStr ''https://checkout.example/inv_1'')])"

text \<open>Requests the server can receive beside the scenarios: a checkout request for a
  booking whose id contains the delimiter, with the table that holds this booking and
  booking \<^verbatim>\<open>a\<close>; a paid callback whose external identifier is the number 42; and a
  pending callback whose external identifier is the object \<^verbatim>\<open>{"toString": 1}\<close>.\<close>

definition delimiter_request :: jsval where
  "delimiter_request = JObj [(''booking_id'', JStr ''a_b''), (''amount'', JNum ''1000'')]"

definition delimiter_bookings :: "booking list" where
  "delimiter_bookings = [awaiting ''a'', awaiting ''a_b'']"

definition numeric_callback :: jsval where
  "numeric_callback = JObj [(''status'', JStr ''PAID''), (''external_id'', JNum ''42'')]"

definition unprintable_callback :: jsval where
  "unprintable_callback =
     JObj [(''status'', JStr ''PENDING''),
           (''external_id'', JObj [(''toString'', JNum ''1'')])]"

section \<open>Properties of the string operations\<close>

lemma split_nonempty: "split sep s \<noteq> []"
  by (induction s) (auto split: list.splits)

lemma split_append_sep:
  "sep \<notin> set a \<Longrightarrow> split sep (a @ sep # b) = a # split sep b"
  by (induction a) (auto split: list.splits)

lemma startsWith_iff: "startsWith s p \<longleftrightarrow> (\<exists>rest. s = p @ rest)"
  unfolding startsWith_def
  by (metis append_eq_conv_conj append_take_drop_id)

lemma split_booking_prefix:
  "split (CHR ''_'') (''booking_'' @ rest) = ''booking'' # split (CHR ''_'') rest"
  using split_append_sep [of "CHR ''_''" "''booking''" rest] by simp

lemma prefixed_parts:
  "startsWith s ''booking_'' \<Longrightarrow> 2 \<le> length (split (CHR ''_'') s)"
  using split_nonempty [of "CHR ''_''"]
  by (auto simp: startsWith_iff split_booking_prefix Suc_le_eq)

lemma same_extraction: "verify_booking_id x = webhook_booking_id x"
  by (cases x) (auto simp: verify_booking_id_def webhook_booking_id_def prefixed_parts)

lemma prefixed_parts_Suc:
  "startsWith s ''booking_'' \<Longrightarrow> Suc 0 < length (split (CHR ''_'') s)"
  using prefixed_parts [of s] by simp

lemma webhook_booking_id_cases:
  "webhook_booking_id x = Inl TypeError
   \<or> webhook_booking_id x = Inr JNull \<and> (\<exists>t. js_ToString x = Inr t)
   \<or> (\<exists>s. x = JStr s \<and> webhook_booking_id x = Inr (JStr (split (CHR ''_'') s ! 1)))"
  by (cases x) (simp_all add: webhook_booking_id_def js_index_def prefixed_parts_Suc)

section \<open>What each handler does, case by case\<close>

subsection \<open>The webhook\<close>

lemma webhook_not_paid:
  assumes "js_get event ''status'' = Inr st" "st \<noteq> JStr ''PAID''" "js_ToString st = Inr a"
    "js_get event ''external_id'' = Inr x" "js_ToString x = Inr t"
  shows "webhook fault event tbl =
    \<lparr>reply = sendStatus 200, bookings = tbl, console = [Log_received_webhook a t]\<rparr>"
  using assms by (simp add: webhook_def webhook_try_def attempt_def)

lemma webhook_paid_unresolved:
  assumes "js_get event ''status'' = Inr (JStr ''PAID'')"
    "js_get event ''external_id'' = Inr x" "js_ToString x = Inr t"
    "webhook_booking_id x = Inr b" "\<not> truthy b"
  shows "webhook fault event tbl =
    \<lparr>reply = sendStatus 200, bookings = tbl,
     console = [Log_received_webhook ''PAID'' t, Log_extracted b, Warn_no_booking_id event]\<rparr>"
  using assms by (simp add: webhook_def webhook_try_def attempt_def)

lemma webhook_paid_resolved:
  assumes "js_get event ''status'' = Inr (JStr ''PAID'')"
    "js_get event ''external_id'' = Inr (JStr s)"
    "webhook_booking_id (JStr s) = Inr (JStr k)" "k \<noteq> []"
  shows "webhook fault event tbl =
    (case fault of
       Some err \<Rightarrow>
         \<lparr>reply = Reply 500 (Text ''Database update failed''), bookings = tbl,
          console = [Log_received_webhook ''PAID'' s, Log_extracted (JStr k),
                     Log_payment_successful k, Err_updating_booking err]\<rparr>
     | None \<Rightarrow>
         \<lparr>reply = sendStatus 200, bookings = update_rows (JStr k) tbl,
          console = [Log_received_webhook ''PAID'' s, Log_extracted (JStr k),
                     Log_payment_successful k,
                     Log_booking_updated (filter (eq_id (JStr k)) (update_rows (JStr k) tbl))]\<rparr>)"
  using assms
  by (simp add: webhook_def webhook_try_def attempt_def supabase_update_def
        split: option.splits)

lemma webhook_throws:
  "webhook_try fault event tbl = Inl (e, printed) \<Longrightarrow>
   webhook fault event tbl =
     \<lparr>reply = sendStatus 500, bookings = tbl, console = printed @ [Err_webhook e]\<rparr>"
  by (simp add: webhook_def)

lemma webhook_bookings:
  "bookings (webhook fault event tbl) =
     (case js_get event ''status'' of Inl e \<Rightarrow> tbl | Inr st \<Rightarrow>
       (case js_get event ''external_id'' of Inl e \<Rightarrow> tbl | Inr x \<Rightarrow>
         (case webhook_booking_id x of Inl e \<Rightarrow> tbl | Inr b \<Rightarrow>
            if st = JStr ''PAID'' \<and> truthy b \<and> fault = None then update_rows b tbl else tbl)))"
proof (cases "js_get event ''status''")
  case (Inl e)
  then show ?thesis by (simp add: webhook_def webhook_try_def attempt_def)
next
  case st: (Inr st)
  show ?thesis
  proof (cases "js_get event ''external_id''")
    case (Inl e)
    then show ?thesis using st
      by (cases event) simp_all
  next
    case x: (Inr x)
    show ?thesis
    proof (cases "st = JStr ''PAID''")
      case False
      then have "bookings (webhook fault event tbl) = tbl"
        using st x
        by (cases "js_ToString st"; cases "js_ToString x")
           (simp_all add: webhook_def webhook_try_def attempt_def)
      then show ?thesis using st x False by (simp split: sum.splits)
    next
      case True
      from webhook_booking_id_cases [of x] show ?thesis
      proof (elim disjE conjE exE)
        assume b: "webhook_booking_id x = Inl TypeError"
        then have "bookings (webhook fault event tbl) = tbl"
          using st x True
          by (cases "js_ToString x") (simp_all add: webhook_def webhook_try_def attempt_def)
        then show ?thesis using st x b by simp
      next
        fix t assume b: "webhook_booking_id x = Inr JNull" and t: "js_ToString x = Inr t"
        show ?thesis
          using webhook_paid_unresolved [OF _ x t b, of fault tbl] st x b True by simp
      next
        fix s assume s: "x = JStr s"
          and b: "webhook_booking_id x = Inr (JStr (split (CHR ''_'') s ! 1))"
        show ?thesis
        proof (cases "split (CHR ''_'') s ! 1 = []")
          case True
          then show ?thesis
            using webhook_paid_unresolved [OF _ x _ b, of s fault tbl] st x b
              \<open>st = JStr ''PAID''\<close> s
            by simp
        next
          case False
          then show ?thesis
            using webhook_paid_resolved [of event s _ fault tbl] st x b
              \<open>st = JStr ''PAID''\<close> s
            by (simp split: option.splits)
        qed
      qed
    qed
  qed
qed

subsection \<open>The manual verification\<close>

lemma verify_rejected:
  "verify_payment Rejected fault iid tbl =
     \<lparr>reply = Reply 500 (Json (JObj [(''error'', JStr ''Verification failed'')])),
      bookings = tbl, console = [Log_verifying iid, Err_verifying AxiosError]\<rparr>"
  by (simp add: verify_payment_def verify_payment_try_def attempt_def axios_result_def)

lemma verify_not_paid:
  assumes "js_get invoice ''status'' = Inr st" "st \<noteq> JStr ''PAID''"
  shows "verify_payment (Fulfilled invoice) fault iid tbl =
     \<lparr>reply = Reply 200 (Json (JObj [(''status'', st)])),
      bookings = tbl, console = [Log_verifying iid]\<rparr>"
  using assms
  by (simp add: verify_payment_def verify_payment_try_def attempt_def axios_result_def)

lemma verify_paid_unresolved:
  assumes "js_get invoice ''status'' = Inr (JStr ''PAID'')"
    "js_get invoice ''external_id'' = Inr x"
    "verify_booking_id x = Inr b" "\<not> truthy b"
  shows "verify_payment (Fulfilled invoice) fault iid tbl =
     \<lparr>reply = Reply 200 (Json (JObj [(''status'', JStr ''PAID'')])),
      bookings = tbl, console = [Log_verifying iid]\<rparr>"
  using assms
  by (simp add: verify_payment_def verify_payment_try_def attempt_def axios_result_def)

lemma verify_paid_resolved:
  assumes "js_get invoice ''status'' = Inr (JStr ''PAID'')"
    "js_get invoice ''external_id'' = Inr x"
    "verify_booking_id x = Inr b" "truthy b"
  shows "verify_payment (Fulfilled invoice) fault iid tbl =
     \<lparr>reply = Reply 200 (Json (JObj [(''status'', JStr ''PAID''), (''booking_id'', b)])),
      bookings = (case fault of Some err \<Rightarrow> tbl | None \<Rightarrow> update_rows b tbl),
      console = (case fault of Some err \<Rightarrow> [Log_verifying iid, Err_supabase_update err]
                 | None \<Rightarrow> [Log_verifying iid])\<rparr>"
  using assms
  by (simp add: verify_payment_def verify_payment_try_def attempt_def axios_result_def
        supabase_update_def split: option.splits)

lemma verify_throws:
  assumes "js_get invoice ''status'' = Inr (JStr ''PAID'')"
    "js_get invoice ''external_id'' = Inr x"
    "verify_booking_id x = Inl e"
  shows "verify_payment (Fulfilled invoice) fault iid tbl =
     \<lparr>reply = Reply 500 (Json (JObj [(''error'', JStr ''Verification failed'')])),
      bookings = tbl, console = [Log_verifying iid, Err_verifying e]\<rparr>"
  using assms
  by (simp add: verify_payment_def verify_payment_try_def attempt_def axios_result_def)

lemma js_get_total: "js_get v a = Inr x \<Longrightarrow> \<exists>y. js_get v b = Inr y"
  by (cases v) simp_all

lemma verify_bookings:
  "bookings (verify_payment (Fulfilled invoice) fault iid tbl) =
     (case js_get invoice ''status'' of Inl e \<Rightarrow> tbl | Inr st \<Rightarrow>
       (case js_get invoice ''external_id'' of Inl e \<Rightarrow> tbl | Inr x \<Rightarrow>
         (case verify_booking_id x of Inl e \<Rightarrow> tbl | Inr b \<Rightarrow>
            if st = JStr ''PAID'' \<and> truthy b \<and> fault = None then update_rows b tbl else tbl)))"
proof (cases "js_get invoice ''status''")
  case (Inl e)
  then show ?thesis
    by (simp add: verify_payment_def verify_payment_try_def attempt_def axios_result_def)
next
  case st: (Inr st)
  then obtain x where x: "js_get invoice ''external_id'' = Inr x"
    using js_get_total by blast
  show ?thesis
  proof (cases "st = JStr ''PAID''")
    case False
    then show ?thesis using verify_not_paid [OF st False, of fault iid tbl] st x
      by (simp split: sum.splits)
  next
    case True
    show ?thesis
    proof (cases "verify_booking_id x")
      case (Inl e)
      then show ?thesis using verify_throws [OF _ x Inl, of fault iid tbl] st x True by simp
    next
      case (Inr b)
      then show ?thesis
        using verify_paid_unresolved [OF _ x Inr, of fault iid tbl]
          verify_paid_resolved [OF _ x Inr, of fault iid tbl] st x True
        by (cases "truthy b") (simp_all split: option.splits)
    qed
  qed
qed

lemma Rejected_bookings: "bookings (verify_payment Rejected fault iid tbl) = tbl"
  by (simp add: verify_rejected)

section \<open>The store update\<close>

lemma eq_id_set_paid_confirmed: "eq_id v (set_paid_confirmed r) = eq_id v r"
  by (simp add: eq_id_def set_paid_confirmed_def)

lemma set_paid_confirmed_twice:
  "set_paid_confirmed (set_paid_confirmed r) = set_paid_confirmed r"
  by (simp add: set_paid_confirmed_def)

lemma update_rows_twice: "update_rows v (update_rows v tbl) = update_rows v tbl"
  by (induction tbl)
     (simp_all add: update_rows_def eq_id_set_paid_confirmed set_paid_confirmed_twice)

lemma webhook_twice:
  "bookings (webhook None event (bookings (webhook None event tbl))) =
   bookings (webhook None event tbl)"
  by (simp add: webhook_bookings update_rows_twice split: sum.splits)

lemma verify_twice:
  "bookings (verify_payment answer None iid (bookings (verify_payment answer None iid tbl))) =
   bookings (verify_payment answer None iid tbl)"
  by (cases answer)
     (simp_all add: verify_bookings Rejected_bookings update_rows_twice split: sum.splits)

text \<open>
  Claim C4. The update that marks a booking paid and confirmed is idempotent: for every
  booking id and every table, running the statement a second time leaves the table as
  the first run left it, and the database call returns the same rows and the same table
  the second time. The same holds for each handler as a whole: a second delivery of a
  webhook event, or a second manual verification of an invoice, leaves the table as the
  first one left it.
\<close>

theorem mark_paid_confirmed_idempotent:
  "update_rows v (update_rows v tbl) = update_rows v tbl
   \<and> supabase_update None v (snd (supabase_update None v tbl)) = supabase_update None v tbl
   \<and> bookings (webhook None event (bookings (webhook None event tbl))) =
       bookings (webhook None event tbl)
   \<and> bookings (verify_payment answer None iid (bookings (verify_payment answer None iid tbl))) =
       bookings (verify_payment answer None iid tbl)"
  by (simp add: update_rows_twice supabase_update_def webhook_twice verify_twice)

theorem mark_paid_confirmed_idempotent_witness:
  "update_rows (JStr ''42'') (update_rows (JStr ''42'') two_bookings) =
     [confirmed ''42'', awaiting ''7'']
   \<and> update_rows (JStr ''42'') two_bookings = [confirmed ''42'', awaiting ''7'']"
  using mark_paid_confirmed_idempotent [of "JStr ''42''" two_bookings]
  by (simp add: update_rows_def eq_id_def set_paid_confirmed_def two_bookings_def
        awaiting_def confirmed_def)

section \<open>Claims about the correlation\<close>

text \<open>What the extraction returns on any identifier with the prefix: the text between
  the prefix and the next delimiter.\<close>

lemma split_first_segment:
  "\<exists>ps. split sep s = takeWhile (\<lambda>c. c \<noteq> sep) s # ps"
  by (induction s) (auto split: list.splits)

lemma booking_id_is_first_segment:
  "webhook_booking_id (JStr (''booking_'' @ rest)) =
     Inr (JStr (takeWhile (\<lambda>c. c \<noteq> CHR ''_'') rest))"
proof -
  obtain ps where "split (CHR ''_'') rest = takeWhile (\<lambda>c. c \<noteq> CHR ''_'') rest # ps"
    using split_first_segment by blast
  then have "split (CHR ''_'') (''booking_'' @ rest) =
      ''booking'' # takeWhile (\<lambda>c. c \<noteq> CHR ''_'') rest # ps"
    by (simp only: split_booking_prefix)
  moreover have "startsWith (''booking_'' @ rest) ''booking_''"
    by (simp add: startsWith_def)
  ultimately show ?thesis
    by (simp add: webhook_booking_id_def js_index_def del: append.simps)
qed

lemma split_composite:
  assumes "CHR ''_'' \<notin> set bid"
  shows "split (CHR ''_'') (''booking_'' @ bid @ ''_'' @ ts) =
         ''booking'' # bid # split (CHR ''_'') ts"
proof -
  have "split (CHR ''_'') (bid @ CHR ''_'' # ts) = bid # split (CHR ''_'') ts"
    using assms by (rule split_append_sep)
  then show ?thesis
    using split_booking_prefix [of "bid @ ''_'' @ ts"] by simp
qed

lemma startsWith_composite: "startsWith (''booking_'' @ rest) ''booking_''"
  by (simp add: startsWith_def)

lemma webhook_booking_id_composite:
  assumes "CHR ''_'' \<notin> set bid"
  shows "webhook_booking_id (JStr (''booking_'' @ bid @ ''_'' @ ts)) = Inr (JStr bid)"
proof -
  have "webhook_booking_id (JStr (''booking_'' @ (bid @ ''_'' @ ts))) = Inr (JStr bid)"
    unfolding webhook_booking_id_def
    using split_composite [OF assms, of ts] startsWith_composite [of "bid @ ''_'' @ ts"] split_nonempty[of "CHR ''_''" ts]
    by (simp add: js_index_def del: append.simps)
  then show ?thesis by simp
qed

text \<open>Where the id does not contain the delimiter, both extractions return it exactly,
  whatever follows the second delimiter.\<close>

lemma extraction_without_delimiter:
  assumes "CHR ''_'' \<notin> set bid"
  shows "verify_booking_id (JStr (''booking_'' @ bid @ ''_'' @ ts)) = Inr (JStr bid)
       \<and> webhook_booking_id (JStr (''booking_'' @ bid @ ''_'' @ ts)) = Inr (JStr bid)"
  using webhook_booking_id_composite [OF assms] by (simp add: same_extraction)

text \<open>
  Claim C2 says that the extraction returns \<^verbatim>\<open><id>\<close> exactly for every externally
  assigned id, also for an id that contains the delimiter. The server does not do so. For
  the booking id \<^verbatim>\<open>a_b\<close> its own invoice creation issues the external identifier
  \<^verbatim>\<open>booking_a_b_169000\<close>; reading it back, both handlers extract \<^verbatim>\<open>a\<close>, and
  on the \<^verbatim>\<open>PAID\<close> event they confirm booking \<^verbatim>\<open>a\<close> and leave booking
  \<^verbatim>\<open>a_b\<close> unpaid. The theorem evaluates the three handlers at that input.
\<close>

theorem delimiter_id_confirms_other_booking:
  "map (\<lambda>payload. js_get payload ''external_id'')
     (posted (create_checkout_session None 169000 accepting_provider delimiter_request
                delimiter_bookings))
     = [Inr (JStr ''booking_a_b_169000'')]
   \<and> verify_booking_id (JStr ''booking_a_b_169000'') = Inr (JStr ''a'')
   \<and> webhook_booking_id (JStr ''booking_a_b_169000'') = Inr (JStr ''a'')
   \<and> bookings (webhook None (payment_event ''PAID'' ''booking_a_b_169000'') delimiter_bookings)
       = [confirmed ''a'', awaiting ''a_b'']
   \<and> bookings (verify_payment (Fulfilled (payment_event ''PAID'' ''booking_a_b_169000'')) None
         ''inv_1'' delimiter_bookings)
       = [confirmed ''a'', awaiting ''a_b'']"
proof -
  have d: "dec 169000 = ''169000''" by (simp add: dec.simps digit_def)
  have sent: "map (\<lambda>payload. js_get payload ''external_id'')
     (posted (create_checkout_session None 169000 accepting_provider delimiter_request
                delimiter_bookings))
     = [Inr (JStr ''booking_a_b_169000'')]"
    by (simp add: create_checkout_session_def create_checkout_session_try_def attempt_def
        invoice_payload_def delimiter_request_def accepting_provider_def axios_result_def d)
  have x: "webhook_booking_id (JStr ''booking_a_b_169000'') = Inr (JStr ''a'')"
    by (simp add: webhook_booking_id_def startsWith_def js_index_def)
  have g: "js_get (payment_event ''PAID'' ''booking_a_b_169000'') ''status'' = Inr (JStr ''PAID'')"
    "js_get (payment_event ''PAID'' ''booking_a_b_169000'') ''external_id'' =
       Inr (JStr ''booking_a_b_169000'')"
    by (simp_all add: payment_event_def)
  have u: "update_rows (JStr ''a'') delimiter_bookings = [confirmed ''a'', awaiting ''a_b'']"
    by (simp add: update_rows_def eq_id_def set_paid_confirmed_def delimiter_bookings_def
        awaiting_def confirmed_def)
  have "bookings (webhook None (payment_event ''PAID'' ''booking_a_b_169000'') delimiter_bookings)
       = [confirmed ''a'', awaiting ''a_b'']"
    by (simp add: webhook_bookings g x u)
  moreover have "bookings (verify_payment (Fulfilled (payment_event ''PAID'' ''booking_a_b_169000''))
         None ''inv_1'' delimiter_bookings) = [confirmed ''a'', awaiting ''a_b'']"
    by (simp add: verify_bookings g x u same_extraction)
  ultimately show ?thesis using sent x by (simp add: same_extraction)
qed

lemma malformed_extraction:
  "malformed x \<Longrightarrow>
   webhook_booking_id x = (if falsy_or_string x then Inr JNull else Inl TypeError)"
  by (cases x) (simp_all add: webhook_booking_id_def falsy_or_string_def)

lemma falsy_or_string_prints: "falsy_or_string x \<Longrightarrow> \<exists>t. js_ToString x = Inr t"
  by (cases x) (simp_all add: falsy_or_string_def)

text \<open>
  Claim C5, as the code has it. For every malformed or missing external identifier neither
  handler changes a booking, whatever the status of the event. When the identifier is
  falsy (absent, \<^verbatim>\<open>null\<close>, the empty string) or a string without the prefix
  \<^verbatim>\<open>booking_\<close>, the extraction of both handlers returns \<^verbatim>\<open>null\<close> and does not
  throw, and a \<^verbatim>\<open>PAID\<close> event is answered with 200.
\<close>

theorem malformed_identifier_never_mutates:
  assumes "malformed x"
  shows "(js_get event ''external_id'' = Inr x \<longrightarrow> bookings (webhook fault event tbl) = tbl)
    \<and> (js_get invoice ''external_id'' = Inr x \<longrightarrow>
          bookings (verify_payment (Fulfilled invoice) fault iid tbl) = tbl)
    \<and> (falsy_or_string x \<longrightarrow>
          verify_booking_id x = Inr JNull \<and> webhook_booking_id x = Inr JNull
          \<and> (js_get event ''status'' = Inr (JStr ''PAID'')
              \<and> js_get event ''external_id'' = Inr x \<longrightarrow>
                reply (webhook fault event tbl) = Reply 200 (Text ''OK''))
          \<and> (js_get invoice ''status'' = Inr (JStr ''PAID'')
              \<and> js_get invoice ''external_id'' = Inr x \<longrightarrow>
                reply (verify_payment (Fulfilled invoice) fault iid tbl) =
                  Reply 200 (Json (JObj [(''status'', JStr ''PAID'')]))))"
proof -
  note w = malformed_extraction [OF assms]
  have m1: "bookings (webhook fault event tbl) = tbl" if "js_get event ''external_id'' = Inr x"
    using that w by (simp add: webhook_bookings split: sum.splits)
  have m2: "bookings (verify_payment (Fulfilled invoice) fault iid tbl) = tbl"
    if "js_get invoice ''external_id'' = Inr x"
    using that w by (simp add: verify_bookings same_extraction split: sum.splits)
  have r: "verify_booking_id x = Inr JNull \<and> webhook_booking_id x = Inr JNull
          \<and> (js_get event ''status'' = Inr (JStr ''PAID'')
              \<and> js_get event ''external_id'' = Inr x \<longrightarrow>
                reply (webhook fault event tbl) = Reply 200 (Text ''OK''))
          \<and> (js_get invoice ''status'' = Inr (JStr ''PAID'')
              \<and> js_get invoice ''external_id'' = Inr x \<longrightarrow>
                reply (verify_payment (Fulfilled invoice) fault iid tbl) =
                  Reply 200 (Json (JObj [(''status'', JStr ''PAID'')])))"
    if f: "falsy_or_string x"
  proof -
    have wn: "webhook_booking_id x = Inr JNull" using w f by simp
    then have vn: "verify_booking_id x = Inr JNull" by (simp add: same_extraction)
    obtain t where t: "js_ToString x = Inr t" using falsy_or_string_prints [OF f] by blast
    have "reply (webhook fault event tbl) = Reply 200 (Text ''OK'')"
      if "js_get event ''status'' = Inr (JStr ''PAID'')" "js_get event ''external_id'' = Inr x"
      using webhook_paid_unresolved [OF that t wn, of fault tbl] by (simp add: sendStatus_def)
    moreover have "reply (verify_payment (Fulfilled invoice) fault iid tbl) =
            Reply 200 (Json (JObj [(''status'', JStr ''PAID'')]))"
      if "js_get invoice ''status'' = Inr (JStr ''PAID'')"
        "js_get invoice ''external_id'' = Inr x"
      using verify_paid_unresolved [OF that vn, of fault iid tbl] by simp
    ultimately show ?thesis using wn vn by blast
  qed
  from m1 m2 r show ?thesis by blast
qed

theorem malformed_identifier_never_mutates_witness:
  "malformed (JStr '''') \<and> falsy_or_string (JStr '''')
   \<and> verify_booking_id (JStr '''') = Inr JNull \<and> webhook_booking_id (JStr '''') = Inr JNull
   \<and> bookings (webhook None (payment_event ''PAID'' '''') two_bookings) = two_bookings
   \<and> bookings (verify_payment (Fulfilled (payment_event ''PAID'' '''')) None ''inv_1'' two_bookings)
        = two_bookings
   \<and> reply (webhook None (payment_event ''PAID'' '''') two_bookings) = Reply 200 (Text ''OK'')
   \<and> reply (verify_payment (Fulfilled (payment_event ''PAID'' '''')) None ''inv_1'' two_bookings)
        = Reply 200 (Json (JObj [(''status'', JStr ''PAID'')]))"
proof -
  have m: "malformed (JStr '''')" "falsy_or_string (JStr '''')"
    by (simp_all add: startsWith_def falsy_or_string_def)
  have g: "js_get (payment_event ''PAID'' '''') ''status'' = Inr (JStr ''PAID'')"
    "js_get (payment_event ''PAID'' '''') ''external_id'' = Inr (JStr '''')"
    by (simp_all add: payment_event_def)
  show ?thesis
    using malformed_identifier_never_mutates
      [OF m(1), of "payment_event ''PAID'' ''''" None two_bookings
         "payment_event ''PAID'' ''''" "''inv_1''"] m g
    by blast
qed

text \<open>
  The claim as the specification words it says that the extraction never raises on a
  malformed identifier. On an identifier that is not a string and is truthy it does: the
  number 42 has no method \<^verbatim>\<open>startsWith\<close>, and both extractions throw.
\<close>

theorem malformed_number_counterexample:
  "malformed (JNum ''42'')
   \<and> verify_booking_id (JNum ''42'') = Inl TypeError
   \<and> webhook_booking_id (JNum ''42'') = Inl TypeError
   \<and> verify_booking_id (JNum ''42'') \<noteq> Inr JNull
   \<and> webhook_booking_id (JNum ''42'') \<noteq> Inr JNull"
  by (simp add: verify_booking_id_def webhook_booking_id_def)

section \<open>Claims about the two entry points\<close>

text \<open>
  Claim C3. The manual verification and the webhook apply the same correlation and the
  same update. For every external identifier the two extractions agree. For every invoice
  and every event that carry the same status and the same external identifier, and the
  same answer of the database, the two handlers leave the same table. On a
  \<^verbatim>\<open>PAID\<close> status with a resolved id each handler assigns Paid and Confirmed to
  the rows with that id, and the table is the same whichever handler runs first.
\<close>

theorem verify_and_webhook_share_logic:
  "verify_booking_id x = webhook_booking_id x
   \<and> (js_get invoice ''status'' = js_get event ''status''
        \<and> js_get invoice ''external_id'' = js_get event ''external_id'' \<longrightarrow>
        bookings (verify_payment (Fulfilled invoice) fault iid tbl) =
        bookings (webhook fault event tbl))
   \<and> (js_get invoice ''status'' = Inr (JStr ''PAID'') \<and> js_get event ''status'' = Inr (JStr ''PAID'')
        \<and> js_get invoice ''external_id'' = Inr x \<and> js_get event ''external_id'' = Inr x
        \<and> webhook_booking_id x = Inr b \<and> truthy b \<longrightarrow>
        bookings (verify_payment (Fulfilled invoice) None iid tbl) = update_rows b tbl
        \<and> bookings (webhook None event tbl) = update_rows b tbl
        \<and> bookings (webhook None event (bookings (verify_payment (Fulfilled invoice) None iid tbl)))
            = update_rows b tbl
        \<and> bookings (verify_payment (Fulfilled invoice) None iid (bookings (webhook None event tbl)))
            = update_rows b tbl)"
proof -
  have "bookings (verify_payment (Fulfilled invoice) fault iid tbl) =
        bookings (webhook fault event tbl)"
    if "js_get invoice ''status'' = js_get event ''status''"
      "js_get invoice ''external_id'' = js_get event ''external_id''"
    by (simp add: webhook_bookings verify_bookings same_extraction that split: sum.splits)
  moreover have "bookings (verify_payment (Fulfilled invoice) None iid tbl) = update_rows b tbl
        \<and> bookings (webhook None event tbl) = update_rows b tbl
        \<and> bookings (webhook None event (bookings (verify_payment (Fulfilled invoice) None iid tbl)))
            = update_rows b tbl
        \<and> bookings (verify_payment (Fulfilled invoice) None iid (bookings (webhook None event tbl)))
            = update_rows b tbl"
    if "js_get invoice ''status'' = Inr (JStr ''PAID'')" "js_get event ''status'' = Inr (JStr ''PAID'')"
      "js_get invoice ''external_id'' = Inr x" "js_get event ''external_id'' = Inr x"
      "webhook_booking_id x = Inr b" "truthy b"
    using that by (simp add: same_extraction webhook_bookings verify_bookings update_rows_twice)
  ultimately show ?thesis using same_extraction [of x] by blast
qed

theorem verify_and_webhook_share_logic_witness:
  "verify_booking_id (JStr ''booking_42_169000'') = webhook_booking_id (JStr ''booking_42_169000'')
   \<and> bookings (verify_payment (Fulfilled (payment_event ''PAID'' ''booking_42_169000'')) None
         ''inv_1'' two_bookings) = [confirmed ''42'', awaiting ''7'']
   \<and> bookings (webhook None (payment_event ''PAID'' ''booking_42_169000'') two_bookings)
        = [confirmed ''42'', awaiting ''7'']
   \<and> bookings (webhook None (payment_event ''PAID'' ''booking_42_169000'')
        (bookings (verify_payment (Fulfilled (payment_event ''PAID'' ''booking_42_169000'')) None
           ''inv_1'' two_bookings))) = [confirmed ''42'', awaiting ''7'']
   \<and> bookings (verify_payment (Fulfilled (payment_event ''PAID'' ''booking_42_169000'')) None
        ''inv_1'' (bookings (webhook None (payment_event ''PAID'' ''booking_42_169000'') two_bookings)))
        = [confirmed ''42'', awaiting ''7'']"
proof -
  have x: "webhook_booking_id (JStr ''booking_42_169000'') = Inr (JStr ''42'')"
    by (simp add: webhook_booking_id_def startsWith_def js_index_def)
  have u: "update_rows (JStr ''42'') two_bookings = [confirmed ''42'', awaiting ''7'']"
    by (simp add: update_rows_def eq_id_def set_paid_confirmed_def two_bookings_def
        awaiting_def confirmed_def)
  have st: "js_get (payment_event ''PAID'' ''booking_42_169000'') ''status'' = Inr (JStr ''PAID'')"
    and ext: "js_get (payment_event ''PAID'' ''booking_42_169000'') ''external_id'' =
              Inr (JStr ''booking_42_169000'')"
    by (simp_all add: payment_event_def)
  have tr: "truthy (JStr ''42'')" by simp
  show ?thesis
    unfolding u [symmetric]
    using verify_and_webhook_share_logic
      [of "JStr ''booking_42_169000''" "payment_event ''PAID'' ''booking_42_169000''"
          "payment_event ''PAID'' ''booking_42_169000''" None "''inv_1''" two_bookings "JStr ''42''"]
      x st ext tr
    by blast
qed

lemma falsy_or_string_extraction:
  "falsy_or_string x \<Longrightarrow> \<exists>b. webhook_booking_id x = Inr b"
  by (cases x) (auto simp: falsy_or_string_def webhook_booking_id_def split: if_splits)

text \<open>
  Claim C6, as the code has it. For every webhook event with status \<^verbatim>\<open>PAID\<close> whose
  external identifier does not resolve to a booking id, the handler changes no booking.
  When that identifier is falsy or a string, the handler prints the payload with the
  warning that no booking id was found, and answers 200.
\<close>

theorem unresolved_paid_webhook_never_mutates:
  assumes "js_get event ''status'' = Inr (JStr ''PAID'')"
    and "js_get event ''external_id'' = Inr x"
    and "\<not> resolves x"
  shows "bookings (webhook fault event tbl) = tbl
    \<and> (falsy_or_string x \<longrightarrow>
          reply (webhook fault event tbl) = Reply 200 (Text ''OK'')
          \<and> Warn_no_booking_id event \<in> set (console (webhook fault event tbl)))"
proof -
  have "bookings (webhook fault event tbl) = tbl"
    using assms by (simp add: webhook_bookings resolves_def split: sum.splits)
  moreover have "reply (webhook fault event tbl) = Reply 200 (Text ''OK'')
          \<and> Warn_no_booking_id event \<in> set (console (webhook fault event tbl))"
    if f: "falsy_or_string x"
  proof -
    obtain b where b: "webhook_booking_id x = Inr b"
      using falsy_or_string_extraction [OF f] by blast
    with assms(3) have nb: "\<not> truthy b" by (simp add: resolves_def)
    obtain t where t: "js_ToString x = Inr t" using falsy_or_string_prints [OF f] by blast
    show ?thesis
      using webhook_paid_unresolved [OF assms(1,2) t b nb, of fault tbl]
      by (simp add: sendStatus_def)
  qed
  ultimately show ?thesis by blast
qed

theorem unresolved_paid_webhook_never_mutates_witness:
  "\<not> resolves (JStr ''unrecognized'') \<and> falsy_or_string (JStr ''unrecognized'')
   \<and> bookings (webhook None (payment_event ''PAID'' ''unrecognized'') two_bookings) = two_bookings
   \<and> reply (webhook None (payment_event ''PAID'' ''unrecognized'') two_bookings)
        = Reply 200 (Text ''OK'')
   \<and> Warn_no_booking_id (payment_event ''PAID'' ''unrecognized'')
        \<in> set (console (webhook None (payment_event ''PAID'' ''unrecognized'') two_bookings))"
proof -
  have n: "\<not> resolves (JStr ''unrecognized'')" "falsy_or_string (JStr ''unrecognized'')"
    by (simp_all add: resolves_def webhook_booking_id_def startsWith_def falsy_or_string_def)
  have g: "js_get (payment_event ''PAID'' ''unrecognized'') ''status'' = Inr (JStr ''PAID'')"
    "js_get (payment_event ''PAID'' ''unrecognized'') ''external_id'' = Inr (JStr ''unrecognized'')"
    by (simp_all add: payment_event_def)
  show ?thesis
    using unresolved_paid_webhook_never_mutates [OF g n(1), of None two_bookings] n
    by blast
qed

text \<open>
  The claim as the specification words it says that such an event is always answered with
  200 and logged as unresolved. A paid callback whose external identifier is the number 42
  does not resolve either; there the extraction throws, the handler answers 500 and the
  warning is not printed.
\<close>

theorem unresolved_number_counterexample:
  "js_get numeric_callback ''status'' = Inr (JStr ''PAID'')
   \<and> js_get numeric_callback ''external_id'' = Inr (JNum ''42'')
   \<and> \<not> resolves (JNum ''42'')
   \<and> reply (webhook None numeric_callback two_bookings)
        = Reply 500 (Text ''Internal Server Error'')
   \<and> Warn_no_booking_id numeric_callback
        \<notin> set (console (webhook None numeric_callback two_bookings))"
  by (simp add: numeric_callback_def resolves_def webhook_booking_id_def webhook_def
      webhook_try_def attempt_def sendStatus_def)

text \<open>
  Claim C7, as the code has it. For every webhook event whose status is not
  \<^verbatim>\<open>PAID\<close> the handler leaves every booking row unchanged. It answers 200 whenever
  its first console line can be printed, that is, whenever the string conversion of the
  status and of the external identifier of the event does not throw: every string,
  number, boolean, \<^verbatim>\<open>null\<close> and missing property converts.
\<close>

theorem webhook_not_paid_passthrough:
  assumes "js_get event ''status'' = Inr st" and "st \<noteq> JStr ''PAID''"
  shows "bookings (webhook fault event tbl) = tbl
    \<and> (js_ToString st = Inr a \<and> js_get event ''external_id'' = Inr x \<and> js_ToString x = Inr t \<longrightarrow>
         reply (webhook fault event tbl) = Reply 200 (Text ''OK''))"
proof -
  have "bookings (webhook fault event tbl) = tbl"
    using assms by (simp add: webhook_bookings split: sum.splits)
  moreover have "reply (webhook fault event tbl) = Reply 200 (Text ''OK'')"
    if "js_ToString st = Inr a" "js_get event ''external_id'' = Inr x" "js_ToString x = Inr t"
    using webhook_not_paid [OF assms that, of fault tbl] by (simp add: sendStatus_def)
  ultimately show ?thesis by blast
qed

theorem webhook_not_paid_passthrough_witness:
  "bookings (webhook None (payment_event ''PENDING'' ''booking_42_169000'') two_bookings)
     = two_bookings
   \<and> reply (webhook None (payment_event ''PENDING'' ''booking_42_169000'') two_bookings)
     = Reply 200 (Text ''OK'')"
  using webhook_not_paid_passthrough
    [of "payment_event ''PENDING'' ''booking_42_169000''" "JStr ''PENDING''" None two_bookings
        "''PENDING''" "JStr ''booking_42_169000''" "''booking_42_169000''"]
  by (simp add: payment_event_def)

text \<open>
  The claim as the specification words it promises 200 for every event whose status is not
  \<^verbatim>\<open>PAID\<close>. A pending callback whose external identifier is the object
  \<^verbatim>\<open>{"toString": 1}\<close> cannot be printed into the first console line: the template
  literal throws and the handler answers 500.
\<close>

theorem not_paid_unprintable_counterexample:
  "js_get unprintable_callback ''status'' = Inr (JStr ''PENDING'')
   \<and> JStr ''PENDING'' \<noteq> JStr ''PAID''
   \<and> reply (webhook None unprintable_callback two_bookings)
        = Reply 500 (Text ''Internal Server Error'')
   \<and> reply (webhook None unprintable_callback two_bookings) \<noteq> Reply 200 (Text ''OK'')"
  by (simp add: unprintable_callback_def webhook_def webhook_try_def attempt_def sendStatus_def)

section \<open>Claims about what is written\<close>

lemma update_rows_JStr:
  "update_rows (JStr k) tbl =
     map (\<lambda>r. if pk r = k then r\<lparr>payment_status := ''Paid'', status := ''Confirmed''\<rparr> else r) tbl"
  by (auto simp: update_rows_def eq_id_def set_paid_confirmed_def)

lemma resolved_is_string:
  assumes "webhook_booking_id x = Inr b" "truthy b"
  shows "\<exists>k. b = JStr k"
  using webhook_booking_id_cases [of x] assms by auto

lemma webhook_bookings_shape:
  "bookings (webhook fault event tbl) = tbl
   \<or> (\<exists>k. bookings (webhook fault event tbl) = update_rows (JStr k) tbl)"
  using resolved_is_string
  by (auto simp: webhook_bookings split: sum.splits)

lemma verify_bookings_shape:
  "bookings (verify_payment answer fault iid tbl) = tbl
   \<or> (\<exists>k. bookings (verify_payment answer fault iid tbl) = update_rows (JStr k) tbl)"
proof (cases answer)
  case Rejected
  then show ?thesis by (simp add: Rejected_bookings)
next
  case (Fulfilled invoice)
  then show ?thesis
    using resolved_is_string
    by (auto simp: verify_bookings same_extraction split: sum.splits)
qed

text \<open>
  Claim C9. What an event contains does not reach the values written. Whenever the
  webhook or the manual verification changes the table, it assigns the constants Paid and
  Confirmed to the rows of one key and keeps every other row and every other column. For
  any two \<^verbatim>\<open>PAID\<close> events (or invoices) that resolve to the same booking id, the
  tables the handlers leave are identical, whatever else the events contain.
\<close>

theorem written_values_are_constants:
  "(bookings (webhook fault event tbl) = tbl
     \<or> (\<exists>k. bookings (webhook fault event tbl) =
           map (\<lambda>r. if pk r = k then r\<lparr>payment_status := ''Paid'', status := ''Confirmed''\<rparr>
                     else r) tbl))
   \<and> (bookings (verify_payment answer fault iid tbl) = tbl
     \<or> (\<exists>k. bookings (verify_payment answer fault iid tbl) =
           map (\<lambda>r. if pk r = k then r\<lparr>payment_status := ''Paid'', status := ''Confirmed''\<rparr>
                     else r) tbl))
   \<and> (js_get e1 ''status'' = Inr (JStr ''PAID'') \<and> js_get e2 ''status'' = Inr (JStr ''PAID'')
       \<and> js_get e1 ''external_id'' = Inr x1 \<and> js_get e2 ''external_id'' = Inr x2
       \<and> webhook_booking_id x1 = Inr b \<and> webhook_booking_id x2 = Inr b \<and> truthy b \<longrightarrow>
       bookings (webhook fault e1 tbl) = bookings (webhook fault e2 tbl)
       \<and> bookings (verify_payment (Fulfilled e1) fault iid tbl) =
           bookings (verify_payment (Fulfilled e2) fault iid' tbl)
       \<and> bookings (verify_payment (Fulfilled e1) fault iid tbl) =
           bookings (webhook fault e2 tbl))"
proof -
  have "bookings (webhook fault e1 tbl) = bookings (webhook fault e2 tbl)
       \<and> bookings (verify_payment (Fulfilled e1) fault iid tbl) =
           bookings (verify_payment (Fulfilled e2) fault iid' tbl)
       \<and> bookings (verify_payment (Fulfilled e1) fault iid tbl) =
           bookings (webhook fault e2 tbl)"
    if "js_get e1 ''status'' = Inr (JStr ''PAID'')" "js_get e2 ''status'' = Inr (JStr ''PAID'')"
      "js_get e1 ''external_id'' = Inr x1" "js_get e2 ''external_id'' = Inr x2"
      "webhook_booking_id x1 = Inr b" "webhook_booking_id x2 = Inr b" "truthy b"
    using that by (simp add: webhook_bookings verify_bookings same_extraction)
  then show ?thesis
    using webhook_bookings_shape [of fault event tbl] verify_bookings_shape [of answer fault iid tbl]
    unfolding update_rows_JStr by blast
qed

theorem written_values_are_constants_witness:
  "bookings (webhook None (payment_event ''PAID'' ''booking_42_169000'') two_bookings)
     = bookings (webhook None paid_callback two_bookings)
   \<and> bookings (verify_payment (Fulfilled (payment_event ''PAID'' ''booking_42_169000'')) None
        ''inv_1'' two_bookings)
     = bookings (verify_payment (Fulfilled paid_callback) None ''inv_9'' two_bookings)
   \<and> bookings (verify_payment (Fulfilled (payment_event ''PAID'' ''booking_42_169000'')) None
        ''inv_1'' two_bookings)
     = bookings (webhook None paid_callback two_bookings)"
proof -
  have x1: "webhook_booking_id (JStr ''booking_42_169000'') = Inr (JStr ''42'')"
    and x2: "webhook_booking_id (JStr ''booking_42_170000'') = Inr (JStr ''42'')"
    by (simp_all add: webhook_booking_id_def startsWith_def js_index_def)
  have g: "js_get (payment_event ''PAID'' ''booking_42_169000'') ''status'' = Inr (JStr ''PAID'')"
    "js_get (payment_event ''PAID'' ''booking_42_169000'') ''external_id'' =
       Inr (JStr ''booking_42_169000'')"
    "js_get paid_callback ''status'' = Inr (JStr ''PAID'')"
    "js_get paid_callback ''external_id'' = Inr (JStr ''booking_42_170000'')"
    by (simp_all add: payment_event_def paid_callback_def)
  have tr: "truthy (JStr ''42'')" by simp
  show ?thesis
    using written_values_are_constants
      [where fault = None and tbl = two_bookings and iid = "''inv_1''" and iid' = "''inv_9''"
         and ?e1.0 = "payment_event ''PAID'' ''booking_42_169000''" and ?e2.0 = paid_callback
         and ?x1.0 = "JStr ''booking_42_169000''" and ?x2.0 = "JStr ''booking_42_170000''"
         and b = "JStr ''42''"]
      x1 x2 g tr
    by blast
qed

section \<open>Claims about an empty id segment\<close>

lemma empty_id_segment_extraction:
  assumes "empty_id_segment s"
  shows "webhook_booking_id (JStr s) = Inr (JStr [])"
proof -
  from assms obtain rest where s: "s = ''booking_'' @ rest"
    and rest: "rest = [] \<or> (\<exists>cs. rest = CHR ''_'' # cs)"
    by (auto simp: empty_id_segment_def startsWith_iff split: list.splits)
  from rest have "\<exists>ps. split (CHR ''_'') rest = [] # ps" by auto
  then obtain ps where "split (CHR ''_'') s = ''booking'' # [] # ps"
    unfolding s split_booking_prefix by auto
  moreover have "s \<noteq> []" "startsWith s ''booking_''"
    using s by (simp_all add: startsWith_def)
  ultimately show ?thesis
    by (simp add: webhook_booking_id_def js_index_def)
qed

text \<open>
  Claim C10. For every external identifier that has the prefix \<^verbatim>\<open>booking_\<close> and an
  empty id segment, both handlers extract the empty string and treat it as unresolved: on
  a \<^verbatim>\<open>PAID\<close> event no booking is changed and the request is answered with 200,
  with the very response an unrecognized identifier gets.
\<close>

theorem empty_id_segment_is_unresolved:
  assumes "empty_id_segment s"
  shows "verify_booking_id (JStr s) = Inr (JStr []) \<and> webhook_booking_id (JStr s) = Inr (JStr [])
    \<and> (js_get event ''status'' = Inr (JStr ''PAID'')
        \<and> js_get event ''external_id'' = Inr (JStr s) \<longrightarrow>
          bookings (webhook fault event tbl) = tbl
          \<and> reply (webhook fault event tbl) = Reply 200 (Text ''OK'')
          \<and> reply (webhook fault event tbl) =
              reply (webhook fault (payment_event ''PAID'' ''unrecognized'') tbl))
    \<and> (js_get invoice ''status'' = Inr (JStr ''PAID'')
        \<and> js_get invoice ''external_id'' = Inr (JStr s) \<longrightarrow>
          bookings (verify_payment (Fulfilled invoice) fault iid tbl) = tbl
          \<and> reply (verify_payment (Fulfilled invoice) fault iid tbl) =
              Reply 200 (Json (JObj [(''status'', JStr ''PAID'')]))
          \<and> reply (verify_payment (Fulfilled invoice) fault iid tbl) =
              reply (verify_payment (Fulfilled (payment_event ''PAID'' ''unrecognized'')) fault iid tbl))"
proof -
  have w: "webhook_booking_id (JStr s) = Inr (JStr [])"
    using assms by (rule empty_id_segment_extraction)
  then have v: "verify_booking_id (JStr s) = Inr (JStr [])" by (simp add: same_extraction)
  have u: "webhook_booking_id (JStr ''unrecognized'') = Inr JNull"
    "verify_booking_id (JStr ''unrecognized'') = Inr JNull"
    by (simp_all add: webhook_booking_id_def verify_booking_id_def startsWith_def)
  have g: "js_get (payment_event ''PAID'' ''unrecognized'') ''status'' = Inr (JStr ''PAID'')"
    "js_get (payment_event ''PAID'' ''unrecognized'') ''external_id'' = Inr (JStr ''unrecognized'')"
    by (simp_all add: payment_event_def)
  have "bookings (webhook fault event tbl) = tbl
          \<and> reply (webhook fault event tbl) = Reply 200 (Text ''OK'')
          \<and> reply (webhook fault event tbl) =
              reply (webhook fault (payment_event ''PAID'' ''unrecognized'') tbl)"
    if "js_get event ''status'' = Inr (JStr ''PAID'')" "js_get event ''external_id'' = Inr (JStr s)"
    using webhook_paid_unresolved [OF that _ w, of s fault tbl]
      webhook_paid_unresolved [OF g _ u(1), of "''unrecognized''" fault tbl]
    by (simp add: sendStatus_def)
  moreover have "bookings (verify_payment (Fulfilled invoice) fault iid tbl) = tbl
          \<and> reply (verify_payment (Fulfilled invoice) fault iid tbl) =
              Reply 200 (Json (JObj [(''status'', JStr ''PAID'')]))
          \<and> reply (verify_payment (Fulfilled invoice) fault iid tbl) =
              reply (verify_payment (Fulfilled (payment_event ''PAID'' ''unrecognized'')) fault iid tbl)"
    if "js_get invoice ''status'' = Inr (JStr ''PAID'')" "js_get invoice ''external_id'' = Inr (JStr s)"
    using verify_paid_unresolved [OF that v, of fault iid tbl]
      verify_paid_unresolved [OF g u(2), of fault iid tbl]
    by simp
  ultimately show ?thesis using w v by blast
qed

theorem empty_id_segment_is_unresolved_witness:
  "empty_id_segment ''booking__169000'' \<and> empty_id_segment ''booking_''
   \<and> webhook_booking_id (JStr ''booking__169000'') = Inr (JStr [])
   \<and> bookings (webhook None (payment_event ''PAID'' ''booking__169000'') two_bookings) = two_bookings
   \<and> reply (webhook None (payment_event ''PAID'' ''booking__169000'') two_bookings)
        = Reply 200 (Text ''OK'')
   \<and> bookings (verify_payment (Fulfilled (payment_event ''PAID'' ''booking__169000'')) None
        ''inv_1'' two_bookings) = two_bookings
   \<and> reply (verify_payment (Fulfilled (payment_event ''PAID'' ''booking__169000'')) None
        ''inv_1'' two_bookings) = Reply 200 (Json (JObj [(''status'', JStr ''PAID'')]))"
proof -
  have e: "empty_id_segment ''booking__169000''" "empty_id_segment ''booking_''"
    by (simp_all add: empty_id_segment_def startsWith_def)
  have g: "js_get (payment_event ''PAID'' ''booking__169000'') ''status'' = Inr (JStr ''PAID'')"
    "js_get (payment_event ''PAID'' ''booking__169000'') ''external_id'' = Inr (JStr ''booking__169000'')"
    by (simp_all add: payment_event_def)
  show ?thesis
    using empty_id_segment_is_unresolved
      [OF e(1), of "payment_event ''PAID'' ''booking__169000''" None two_bookings
         "payment_event ''PAID'' ''booking__169000''" "''inv_1''"] e g
    by blast
qed

section \<open>Claims about failures of the store\<close>

text \<open>
  Claim C1 says that every handler that reaches the update answers 500 when the update
  returns an error. The webhook does. The manual verification does not: at a paid
  invoice for booking 42, with a database that refuses the update, it prints the error
  and answers 200 with \<^verbatim>\<open>{ status: 'PAID', booking_id: '42' }\<close>, while booking 42
  stays unpaid. The theorem evaluates both handlers at that input.
\<close>

theorem verify_payment_reports_success_on_store_error:
  "verify_payment (Fulfilled (payment_event ''PAID'' ''booking_42_169000''))
     (Some ''connection refused'') ''inv_1'' two_bookings =
   \<lparr>reply = Reply 200 (Json (JObj [(''status'', JStr ''PAID''), (''booking_id'', JStr ''42'')])),
    bookings = two_bookings,
    console = [Log_verifying ''inv_1'', Err_supabase_update ''connection refused'']\<rparr>
   \<and> webhook (Some ''connection refused'') (payment_event ''PAID'' ''booking_42_169000'')
       two_bookings =
   \<lparr>reply = Reply 500 (Text ''Database update failed''),
    bookings = two_bookings,
    console = [Log_received_webhook ''PAID'' ''booking_42_169000'', Log_extracted (JStr ''42''),
               Log_payment_successful ''42'', Err_updating_booking ''connection refused'']\<rparr>"
  by (simp add: verify_payment_def verify_payment_try_def webhook_def webhook_try_def attempt_def
      axios_result_def payment_event_def verify_booking_id_def webhook_booking_id_def
      startsWith_def js_index_def supabase_update_def)

section \<open>Claims about the creation of invoices\<close>

lemma digit_is_digit: "digit d \<in> set ''0123456789''"
proof -
  have "d mod 10 < length ''0123456789''" by simp
  then show ?thesis unfolding digit_def by (rule nth_mem)
qed

lemma dec_digits: "dec n \<noteq> [] \<and> set (dec n) \<subseteq> set ''0123456789''"
proof (induction n rule: dec.induct)
  case (1 n)
  show ?case
  proof (cases "n < 10")
    case True
    then show ?thesis using digit_is_digit [of n] by (simp add: dec.simps [of n])
  next
    case False
    then show ?thesis using 1 digit_is_digit [of "n mod 10"] by (simp add: dec.simps [of n])
  qed
qed

lemma invoice_payload_external_id:
  assumes "js_ToString booking_id = Inr id_text"
  obtains payload where
    "invoice_payload frontend now booking_id amount description remarks customer_email = Inr payload"
    and "js_get payload ''external_id'' = Inr (JStr (''booking_'' @ id_text @ ''_'' @ dec now))"
  using assms by (simp add: invoice_payload_def)

lemma create_checkout_session_sent:
  assumes "js_get req_body ''booking_id'' = Inr booking_id"
    and "js_get req_body ''amount'' = Inr amount"
    and "js_get req_body ''description'' = Inr description"
    and "js_get req_body ''remarks'' = Inr remarks"
    and "js_get req_body ''customer_email'' = Inr customer_email"
    and "invoice_payload frontend now booking_id amount description remarks customer_email
           = Inr payload"
  shows "posted (create_checkout_session frontend now post req_body tbl) = [payload]"
  using assms
  by (cases "post payload")
     (auto simp add: create_checkout_session_def create_checkout_session_try_def
        attempt_def axios_result_def Let_def split: sum.splits)

lemma create_checkout_session_answered:
  assumes "js_get req_body ''booking_id'' = Inr booking_id"
    and "js_get req_body ''amount'' = Inr amount"
    and "js_get req_body ''description'' = Inr description"
    and "js_get req_body ''remarks'' = Inr remarks"
    and "js_get req_body ''customer_email'' = Inr customer_email"
    and "invoice_payload frontend now booking_id amount description remarks customer_email
           = Inr payload"
    and "post payload = Fulfilled data"
    and "js_get data ''invoice_url'' = Inr url" and "js_get data ''id'' = Inr invoice_id"
  shows "create_checkout_session frontend now post req_body tbl =
     \<lparr>reply = Reply 200 (Json (JObj [(''data'', JObj [(''attributes'',
                JObj [(''checkout_url'', url), (''invoice_id'', invoice_id)])])])),
      bookings = tbl,
      console = [Log_creating_invoice booking_id amount],
      posted = [payload]\<rparr>"
  using assms
  by (simp add: create_checkout_session_def create_checkout_session_try_def
        attempt_def axios_result_def)

text \<open>
  Claim C8. For every invoice-creation request with a booking id (any value that prints,
  a string printing as itself), the handler sends the provider exactly one object, whose
  external identifier is \<^verbatim>\<open>booking_\<close>, the booking id, \<^verbatim>\<open>_\<close>, and the clock
  in decimal digits only. When the provider accepts and returns an invoice document, the
  handler answers 200 with \<^verbatim>\<open>{data: {attributes: {checkout_url, invoice_id}}}\<close>,
  filled with the \<^verbatim>\<open>invoice_url\<close> and the \<^verbatim>\<open>id\<close> of that document.
\<close>

theorem invoice_creation_correlates:
  assumes "js_get req_body ''booking_id'' = Inr booking_id"
    and "js_ToString booking_id = Inr id_text"
  shows "\<exists>payload.
     posted (create_checkout_session frontend now post req_body tbl) = [payload]
     \<and> js_get payload ''external_id'' = Inr (JStr (''booking_'' @ id_text @ ''_'' @ dec now))
     \<and> dec now \<noteq> [] \<and> set (dec now) \<subseteq> set ''0123456789''
     \<and> (\<forall>data url invoice_id.
           post payload = Fulfilled data \<and> js_get data ''invoice_url'' = Inr url
           \<and> js_get data ''id'' = Inr invoice_id \<longrightarrow>
           reply (create_checkout_session frontend now post req_body tbl) =
             Reply 200 (Json (JObj [(''data'', JObj [(''attributes'',
                JObj [(''checkout_url'', url), (''invoice_id'', invoice_id)])])])))"
proof -
  obtain amount description remarks customer_email where
    g: "js_get req_body ''amount'' = Inr amount"
      "js_get req_body ''description'' = Inr description"
      "js_get req_body ''remarks'' = Inr remarks"
      "js_get req_body ''customer_email'' = Inr customer_email"
    using js_get_total [OF assms(1)] by metis
  obtain payload where
    p: "invoice_payload frontend now booking_id amount description remarks customer_email
          = Inr payload"
    and x: "js_get payload ''external_id'' = Inr (JStr (''booking_'' @ id_text @ ''_'' @ dec now))"
    using assms(2) by (rule invoice_payload_external_id)
  have "posted (create_checkout_session frontend now post req_body tbl) = [payload]"
    using assms(1) g p by (rule create_checkout_session_sent)
  moreover have "reply (create_checkout_session frontend now post req_body tbl) =
             Reply 200 (Json (JObj [(''data'', JObj [(''attributes'',
                JObj [(''checkout_url'', url), (''invoice_id'', invoice_id)])])]))"
    if "post payload = Fulfilled data" "js_get data ''invoice_url'' = Inr url"
      "js_get data ''id'' = Inr invoice_id" for data url invoice_id
    using create_checkout_session_answered [where post = post and tbl = tbl, OF assms(1) g p that]
    by simp
  ultimately show ?thesis using x dec_digits [of now] by blast
qed

theorem invoice_creation_correlates_witness:
  "\<exists>payload.
     posted (create_checkout_session None 169000 accepting_provider checkout_request two_bookings) = [payload]
     \<and> js_get payload ''external_id'' = Inr (JStr ''booking_42_169000'')
     \<and> reply (create_checkout_session None 169000 accepting_provider checkout_request two_bookings) =
         Reply 200 (Json (JObj [(''data'', JObj [(''attributes'',
            JObj [(''checkout_url'', JStr ''https://checkout.example/inv_1''),
                  (''invoice_id'', JStr ''inv_1'')])])]))"
proof -
  have d: "dec 169000 = ''169000''" by (simp add: dec.simps digit_def)
  have b: "js_get checkout_request ''booking_id'' = Inr (JStr ''42'')"
    by (simp add: checkout_request_def)
  have t: "js_ToString (JStr ''42'') = Inr ''42''" by simp
  have a: "js_get (JObj [(''id'', JStr ''inv_1''), (''status'', JStr ''PENDING''),
              (''invoice_url'', JStr ''https://checkout.example/inv_1'')]) ''invoice_url''
            = Inr (JStr ''https://checkout.example/inv_1'')"
    "js_get (JObj [(''id'', JStr ''inv_1''), (''status'', JStr ''PENDING''),
              (''invoice_url'', JStr ''https://checkout.example/inv_1'')]) ''id''
            = Inr (JStr ''inv_1'')"
    by simp_all
  show ?thesis
    using invoice_creation_correlates [OF b t, of None 169000 accepting_provider two_bookings] a
    unfolding d accepting_provider_def
    by fastforce
qed

end
